theory Spec2Isabelle
  imports Main "HOL-Library.Char_ord" "HOL-Library.List_Lexorder" "HOL-Library.AList"
begin

section \<open>Go's net/url, as far as the handlers use it\<close>

text \<open>
  The handlers of \<^verbatim>\<open>authorizations.go\<close> work on \<^verbatim>\<open>*url.URL\<close> and \<^verbatim>\<open>url.Values\<close>.
  The fields of \<^verbatim>\<open>url.URL\<close> are kept by name; the user-info part is left out (no handler
  reads or writes it). A \<^verbatim>\<open>*url.URL\<close> that may be nil is a \<open>URL option\<close>.
\<close>

record URL =
  Scheme :: string
  Opaque :: string
  Host :: string
  Path :: string
  RawQuery :: string
  Fragment :: string

definition emptyURL :: URL where
  "emptyURL = \<lparr>Scheme = [], Opaque = [], Host = [], Path = [], RawQuery = [], Fragment = []\<rparr>"

datatype encoding = encodePath | encodeQueryComponent | encodeFragment

definition isAlnum :: "char \<Rightarrow> bool" where
  "isAlnum c =
     (let n = (of_char c :: nat)
      in (65 \<le> n \<and> n \<le> 90) \<or> (97 \<le> n \<and> n \<le> 122) \<or> (48 \<le> n \<and> n \<le> 57))"

text \<open>\<^verbatim>\<open>shouldEscape(c, mode)\<close> of net/url: alphanumerics and the marks \<^verbatim>\<open>-_.~\<close> are never
  escaped, the reserved characters depend on the mode, everything else is escaped.\<close>

definition shouldEscape :: "char \<Rightarrow> encoding \<Rightarrow> bool" where
  "shouldEscape c mode =
     (if isAlnum c then False
      else if List.member ''-_.~'' c then False
      else if List.member ''$&+,/:;=?@'' c then
        (case mode of
           encodePath \<Rightarrow> c = CHR ''?''
         | encodeQueryComponent \<Rightarrow> True
         | encodeFragment \<Rightarrow> False)
      else True)"

definition upperhex :: "nat \<Rightarrow> char" where
  "upperhex n = ''0123456789ABCDEF'' ! n"

definition escape_byte :: "char \<Rightarrow> encoding \<Rightarrow> string" where
  "escape_byte c mode =
     (if c = CHR '' '' \<and> mode = encodeQueryComponent then ''+''
      else if shouldEscape c mode then
        [CHR ''%'', upperhex ((of_char c :: nat) div 16), upperhex ((of_char c :: nat) mod 16)]
      else [c])"

definition escape :: "string \<Rightarrow> encoding \<Rightarrow> string" where
  "escape s mode = concat (map (\<lambda>c. escape_byte c mode) s)"

definition QueryEscape :: "string \<Rightarrow> string" where
  "QueryEscape s = escape s encodeQueryComponent"

text \<open>\<^verbatim>\<open>func (u *URL) String() string\<close>.\<close>

definition url_String :: "URL \<Rightarrow> string" where
  "url_String u =
     (if Scheme u \<noteq> [] then Scheme u @ '':'' else []) @
     (if Opaque u \<noteq> [] then Opaque u
      else
        (if Scheme u \<noteq> [] \<or> Host u \<noteq> [] then ''//'' @ Host u else []) @
        (if Path u \<noteq> [] \<and> hd (Path u) \<noteq> CHR ''/'' \<and> Host u \<noteq> [] then ''/'' else []) @
        escape (Path u) encodePath) @
     (if RawQuery u \<noteq> [] then ''?'' @ RawQuery u else []) @
     (if Fragment u \<noteq> [] then ''#'' @ escape (Fragment u) encodeFragment else [])"

text \<open>\<^verbatim>\<open>url.Values\<close> is a \<^verbatim>\<open>map[string][]string\<close>: an association list with one entry
  per key. \<^verbatim>\<open>Set\<close> replaces the values of a key by one value; \<^verbatim>\<open>Encode\<close> writes the pairs
  sorted by key, joined by \<^verbatim>\<open>&\<close>, keys and values query-escaped.\<close>

type_synonym Values = "(string \<times> string list) list"

definition Values_Set :: "Values \<Rightarrow> string \<Rightarrow> string \<Rightarrow> Values" where
  "Values_Set v key val = AList.update key [val] v"

definition Values_lookup :: "Values \<Rightarrow> string \<Rightarrow> string list" where
  "Values_lookup v key = (case map_of v key of None \<Rightarrow> [] | Some vs \<Rightarrow> vs)"

fun join :: "string \<Rightarrow> string list \<Rightarrow> string" where
  "join sep [] = []"
| "join sep [x] = x"
| "join sep (x # y # ys) = x @ sep @ join sep (y # ys)"

definition Values_keys :: "Values \<Rightarrow> string list" where
  "Values_keys v = sort (remdups (map fst v))"

definition Values_Encode :: "Values \<Rightarrow> string" where
  "Values_Encode v =
     join ''&''
       (concat (map (\<lambda>k. map (\<lambda>x. QueryEscape k @ ''='' @ QueryEscape x) (Values_lookup v k))
                    (Values_keys v)))"

section \<open>The data of the authorization endpoint\<close>

text \<open>
  \<^verbatim>\<open>types.Client\<close>, \<^verbatim>\<open>types.Scope\<close>, \<^verbatim>\<open>types.Token\<close> and \<^verbatim>\<open>types.GrantCode\<close> are declared
  outside the files at hand; their fields are taken from the places where the handlers and
  the tests read them. \<^verbatim>\<open>Client.RedirectURL\<close> is a \<^verbatim>\<open>*url.URL\<close> (it is assigned to one in
  \<^verbatim>\<open>authCodeGrant1\<close>), hence an option here. \<^verbatim>\<open>time.Duration\<close> is a number of nanoseconds.
\<close>

datatype go_error = Error string

record Client =
  ID :: string
  Name :: string
  Desc :: string
  ProfileImgURL :: string
  HomepageURL :: string
  RedirectURL :: "URL option"

definition zeroClient :: Client where
  "zeroClient = \<lparr>ID = [], Name = [], Desc = [], ProfileImgURL = [], HomepageURL = [],
     RedirectURL = None\<rparr>"

record Scope =
  Scope_ID :: string
  Scope_Desc :: string

datatype TokenType = AccessToken | RefreshToken

record Token =
  Token_Value :: string
  Token_Type :: string
  Token_ExpiresIn :: int
  Token_Scope :: "Scope list"

record GrantCode =
  Code :: string

text \<open>The error values, under the names the handlers use. The first four are package
  variables, the others are built from the \<^verbatim>\<open>state\<close> to echo (and the wrapped cause).\<close>

datatype AuthzError =
    ErrClientIDMissing
  | ErrClientIDNotFound
  | ErrRedirectURLInvalid
  | ErrRedirectURLMismatch
  | ErrStateRequired string
  | ErrUnsupportedResponseType string
  | ErrScopeRequired string
  | ErrServerError string go_error

text \<open>Modelled from the spec: the file declaring the error values is not among the
  sources; the wire code of each is the one of the spec's error table (section 7) and of
  the assertions of the tests (\<^verbatim>\<open>access_denied\<close> for both redirect-URI errors,
  \<^verbatim>\<open>invalid_request\<close> for a missing state or scope).\<close>

fun Err_Code :: "AuthzError \<Rightarrow> string" where
  "Err_Code ErrClientIDMissing = ''invalid_request''"
| "Err_Code ErrClientIDNotFound = ''invalid_request''"
| "Err_Code ErrRedirectURLInvalid = ''access_denied''"
| "Err_Code ErrRedirectURLMismatch = ''access_denied''"
| "Err_Code (ErrStateRequired st) = ''invalid_request''"
| "Err_Code (ErrUnsupportedResponseType st) = ''unsupported_response_type''"
| "Err_Code (ErrScopeRequired st) = ''invalid_request''"
| "Err_Code (ErrServerError st e) = ''server_error''"

record AuthzData =
  Client :: Client
  Scopes :: "Scope list"
  Errors :: "AuthzError list"
  GrantType :: string
  State :: string

text \<open>\<^verbatim>\<open>AuthzData{Errors: []AuthzError{...}}\<close>: every other field has its zero value.\<close>

definition errorData :: "AuthzError list \<Rightarrow> AuthzData" where
  "errorData es = \<lparr>Client = zeroClient, Scopes = [], Errors = es, GrantType = [], State = []\<rparr>"

text \<open>
  What the handlers only pass on is a parameter of the model: \<^verbatim>\<open>url.Parse\<close> (\<open>Inl\<close> is its
  error), \<^verbatim>\<open>url.ParseQuery\<close> as \<^verbatim>\<open>URL.Query()\<close> calls it, and
  \<^verbatim>\<open>strconv.FormatFloat(d.Seconds(), 'f', -1, 64)\<close> on a duration, all three of the standard
  library; \<^verbatim>\<open>EncodeErrInURI\<close> and \<^verbatim>\<open>StringifyScopes\<close>, two helpers of the package that are
  declared outside the files at hand. \<^verbatim>\<open>EncodeErrInURI\<close> receives a \<^verbatim>\<open>url.Values\<close> and an
  error: all it can change is the map it is given, so it is a function to the changed map.
\<close>

record env =
  url_Parse :: "string \<Rightarrow> go_error + URL"
  url_ParseQuery :: "string \<Rightarrow> Values"
  FormatSeconds :: "int \<Rightarrow> string"
  EncodeErrInURI :: "Values \<Rightarrow> AuthzError \<Rightarrow> Values"
  StringifyScopes :: "Scope list \<Rightarrow> string"

text \<open>\<^verbatim>\<open>func (u *URL) Query() Values\<close> parses \<^verbatim>\<open>RawQuery\<close> into a new map.\<close>

definition url_Query :: "env \<Rightarrow> URL \<Rightarrow> Values" where
  "url_Query e u = url_ParseQuery e (RawQuery u)"

subsection \<open>The Provider\<close>

text \<open>
  The \<^verbatim>\<open>Provider\<close> interface, with the methods and arguments of the calls in
  \<^verbatim>\<open>authorizations.go\<close>. All persistent state is behind it: \<open>'s\<close> is that state. The
  methods documented as lookups read it; \<^verbatim>\<open>GenAuthzCode\<close> ("issues and stores") and
  \<^verbatim>\<open>GenToken\<close> ("generates and stores") return the new state. A Go result \<^verbatim>\<open>(v, err)\<close> is
  the pair of the value and the optional error.
\<close>

record 's Provider =
  IsUserAuthenticated :: "'s \<Rightarrow> bool"
  LoginURL :: "'s \<Rightarrow> string \<Rightarrow> string"
  ClientInfo :: "'s \<Rightarrow> string \<Rightarrow> Client \<times> go_error option"
  ScopesInfo :: "'s \<Rightarrow> string \<Rightarrow> Scope list \<times> go_error option"
  GenAuthzCode :: "'s \<Rightarrow> Client \<Rightarrow> Scope list \<Rightarrow> (GrantCode \<times> go_error option) \<times> 's"
  GenToken :: "'s \<Rightarrow> TokenType \<Rightarrow> Scope list \<Rightarrow> Client \<Rightarrow> (Token \<times> go_error option) \<times> 's"

record 's config =
  provider :: "'s Provider"
  authzForm :: string
  stsMaxAge :: int

text \<open>The state a request runs in: the Provider's state and the log of the Provider calls
  made so far, the latest last.\<close>

datatype call =
    Call_IsUserAuthenticated
  | Call_LoginURL string
  | Call_ClientInfo string
  | Call_ScopesInfo string
  | Call_GenAuthzCode Client "Scope list"
  | Call_GenToken TokenType "Scope list" Client

record 's world =
  store :: 's
  calls :: "call list"

definition logged :: "call \<Rightarrow> 's world \<Rightarrow> 's world" where
  "logged c w = w\<lparr>calls := calls w @ [c]\<rparr>"

definition do_IsUserAuthenticated :: "'s config \<Rightarrow> 's world \<Rightarrow> bool \<times> 's world" where
  "do_IsUserAuthenticated cfg w =
     (IsUserAuthenticated (provider cfg) (store w), logged Call_IsUserAuthenticated w)"

definition do_LoginURL :: "'s config \<Rightarrow> string \<Rightarrow> 's world \<Rightarrow> string \<times> 's world" where
  "do_LoginURL cfg referer w =
     (LoginURL (provider cfg) (store w) referer, logged (Call_LoginURL referer) w)"

definition do_ClientInfo ::
  "'s config \<Rightarrow> string \<Rightarrow> 's world \<Rightarrow> (Client \<times> go_error option) \<times> 's world" where
  "do_ClientInfo cfg clientID w =
     (ClientInfo (provider cfg) (store w) clientID, logged (Call_ClientInfo clientID) w)"

definition do_ScopesInfo ::
  "'s config \<Rightarrow> string \<Rightarrow> 's world \<Rightarrow> (Scope list \<times> go_error option) \<times> 's world" where
  "do_ScopesInfo cfg scope w =
     (ScopesInfo (provider cfg) (store w) scope, logged (Call_ScopesInfo scope) w)"

definition do_GenAuthzCode ::
  "'s config \<Rightarrow> Client \<Rightarrow> Scope list \<Rightarrow> 's world \<Rightarrow> (GrantCode \<times> go_error option) \<times> 's world" where
  "do_GenAuthzCode cfg c scs w =
     (case GenAuthzCode (provider cfg) (store w) c scs of
        (r, s') \<Rightarrow> (r, logged (Call_GenAuthzCode c scs) (w\<lparr>store := s'\<rparr>)))"

definition do_GenToken ::
  "'s config \<Rightarrow> TokenType \<Rightarrow> Scope list \<Rightarrow> Client \<Rightarrow> 's world
     \<Rightarrow> (Token \<times> go_error option) \<times> 's world" where
  "do_GenToken cfg tt scs c w =
     (case GenToken (provider cfg) (store w) tt scs c of
        (r, s') \<Rightarrow> (r, logged (Call_GenToken tt scs c) (w\<lparr>store := s'\<rparr>)))"

subsection \<open>Requests and responses\<close>

text \<open>Of the \<^verbatim>\<open>*http.Request\<close>: the method, \<^verbatim>\<open>req.URL.String()\<close>, and the parsed form
  (query string and body) that \<^verbatim>\<open>FormValue\<close> reads: the first value of the key, or the
  empty string.\<close>

record Request =
  Method :: string
  RequestURL :: string
  Form :: Values

definition FormValue :: "Request \<Rightarrow> string \<Rightarrow> string" where
  "FormValue req key = (case Values_lookup (Form req) key of [] \<Rightarrow> [] | v # _ \<Rightarrow> v)"

text \<open>
  What a handler writes: \<^verbatim>\<open>render.HTML(w, render.Options{...})\<close> with its options,
  \<^verbatim>\<open>http.Redirect(w, req, url, code)\<close> with its URL (an absolute URL is the \<^verbatim>\<open>Location\<close>
  header as it is) and its status code, or nothing, when a nil \<^verbatim>\<open>*url.URL\<close> is dereferenced
  and the handler panics.
\<close>

record Options =
  Status :: nat
  Data :: AuthzData
  Template :: string
  STSMaxAge :: int

datatype response = HTML Options | Redirect string nat | NilPointerPanic

definition StatusOK :: nat where "StatusOK = 200"
definition StatusFound :: nat where "StatusFound = 302"

text \<open>The error pages of the handlers: \<^verbatim>\<open>Status\<close>, \<^verbatim>\<open>Data\<close> and \<^verbatim>\<open>Template\<close> are set,
  \<^verbatim>\<open>STSMaxAge\<close> is not.\<close>

definition renderErrors :: "'s config \<Rightarrow> AuthzError list \<Rightarrow> response" where
  "renderErrors cfg es =
     HTML \<lparr>Status = StatusOK, Data = errorData es, Template = authzForm cfg, STSMaxAge = 0\<rparr>"

text \<open>A Go \<^verbatim>\<open>map[string]string\<close>; reading a missing key gives the empty string.\<close>

definition param :: "(string \<rightharpoonup> string) \<Rightarrow> string \<Rightarrow> string" where
  "param params key = (case params key of None \<Rightarrow> [] | Some v \<Rightarrow> v)"

section \<open>The handlers of authorizations.go\<close>

text \<open>\<^verbatim>\<open>&cinfo == nil\<close> compares the address of the local variable \<^verbatim>\<open>cinfo\<close> with nil. A
  variable has an address, whatever its value: the comparison is false.\<close>

definition addr_is_nil :: "Client \<Rightarrow> bool" where
  "addr_is_nil cinfo = False"

text \<open>The error redirects of \<^verbatim>\<open>authCodeGrant1\<close> and \<^verbatim>\<open>implicitGrant\<close>:
  \<^verbatim>\<open>EncodeErrInURI(u.Query(), err); http.Redirect(w, req, u.String(), http.StatusFound)\<close>.
  \<^verbatim>\<open>u.Query()\<close> is a new map; the changed map is not stored back into \<^verbatim>\<open>u\<close>.\<close>

definition redirectError :: "env \<Rightarrow> URL \<Rightarrow> AuthzError \<Rightarrow> response" where
  "redirectError e u err =
     (let query = EncodeErrInURI e (url_Query e u) err
      in Redirect (url_String u) StatusFound)"

text \<open>The redirection URL of the request: \<^verbatim>\<open>url.Parse\<close> of the \<^verbatim>\<open>redirect_uri\<close> parameter
  when the map has the key, the client's registered URL when it has not.\<close>

definition redirectTarget :: "env \<Rightarrow> Client \<Rightarrow> (string \<rightharpoonup> string) \<Rightarrow> go_error + URL option" where
  "redirectTarget e cinfo params =
     (case params ''redirect_uri'' of
        Some u \<Rightarrow> (case url_Parse e u of Inl er \<Rightarrow> Inl er | Inr parsed \<Rightarrow> Inr (Some parsed))
      | None \<Rightarrow> Inr (RedirectURL cinfo))"

text \<open>\<^verbatim>\<open>authCodeGrant1\<close> returns nil after it has written a response (\<open>Inl\<close>, the response)
  or the \<^verbatim>\<open>AuthzData\<close> (\<open>Inr\<close>), having written nothing.\<close>

definition authCodeGrant1 ::
  "env \<Rightarrow> 's config \<Rightarrow> (string \<rightharpoonup> string) \<Rightarrow> 's world \<Rightarrow> (response + AuthzData) \<times> 's world" where
  "authCodeGrant1 e cfg params w0 =
     (let clientID = param params ''client_id'' in
      if clientID = [] then (Inl (renderErrors cfg [ErrClientIDMissing]), w0)
      else
        case do_ClientInfo cfg clientID w0 of ((cinfo, err), w1) \<Rightarrow>
        (case err of
           Some er \<Rightarrow> (Inl (renderErrors cfg [ErrServerError [] er]), w1)
         | None \<Rightarrow>
           if addr_is_nil cinfo then (Inl (renderErrors cfg [ErrClientIDNotFound]), w1)
           else
             (case redirectTarget e cinfo params of
                Inl er \<Rightarrow> (Inl (renderErrors cfg [ErrRedirectURLInvalid]), w1)
              | Inr None \<Rightarrow> (Inl NilPointerPanic, w1)
              | Inr (Some redirectURL) \<Rightarrow>
                  if Scheme redirectURL \<noteq> ''https''
                  then (Inl (renderErrors cfg [ErrRedirectURLInvalid]), w1)
                  else
                    (case RedirectURL cinfo of
                       None \<Rightarrow> (Inl NilPointerPanic, w1)
                     | Some registered \<Rightarrow>
                         if url_String redirectURL \<noteq> url_String registered
                         then (Inl (renderErrors cfg [ErrRedirectURLMismatch]), w1)
                         else
                           (let state = param params ''state'' in
                            if state = []
                            then (Inl (redirectError e redirectURL (ErrStateRequired state)), w1)
                            else
                              let grantType = param params ''response_type'' in
                              if grantType \<noteq> ''code'' \<and> grantType \<noteq> ''token''
                              then (Inl (redirectError e redirectURL
                                           (ErrUnsupportedResponseType state)), w1)
                              else
                                let scope = param params ''scope'' in
                                if scope = []
                                then (Inl (redirectError e redirectURL (ErrScopeRequired state)), w1)
                                else
                                  case do_ScopesInfo cfg scope w1 of ((scopes, err2), w2) \<Rightarrow>
                                  (case err2 of
                                     Some er \<Rightarrow>
                                       (Inl (redirectError e redirectURL
                                               (ErrServerError state er)), w2)
                                   | None \<Rightarrow>
                                       (Inr \<lparr>Client = cinfo, Scopes = scopes, Errors = [],
                                             GrantType = grantType, State = state\<rparr>, w2)))))))"

text \<open>\<^verbatim>\<open>implicitGrant\<close>. The five pairs are set in an empty \<^verbatim>\<open>url.Values\<close>; the fragment of
  the client's URL becomes \<^verbatim>\<open>"#" + query.Encode()\<close>.\<close>

definition implicitQuery :: "env \<Rightarrow> Token \<Rightarrow> AuthzData \<Rightarrow> Values" where
  "implicitQuery e token authzData =
     (let query = [];
          query = Values_Set query ''access_token'' (Token_Value token);
          query = Values_Set query ''token_type'' (Token_Type token);
          query = Values_Set query ''expires_in'' (FormatSeconds e (Token_ExpiresIn token));
          query = Values_Set query ''scope'' (StringifyScopes e (Token_Scope token));
          query = Values_Set query ''state'' (State authzData)
      in query)"

definition implicitGrant ::
  "env \<Rightarrow> 's config \<Rightarrow> AuthzData \<Rightarrow> 's world \<Rightarrow> response \<times> 's world" where
  "implicitGrant e cfg authzData w0 =
     (case do_GenToken cfg AccessToken (Scopes authzData) (Client authzData) w0 of
        ((token, err), w1) \<Rightarrow>
        (case RedirectURL (Client authzData) of
           None \<Rightarrow> (NilPointerPanic, w1)
         | Some u \<Rightarrow>
           (case err of
              Some er \<Rightarrow> (redirectError e u (ErrServerError (State authzData) er), w1)
            | None \<Rightarrow>
                (let query = implicitQuery e token authzData;
                     u' = u\<lparr>Fragment := ''#'' @ Values_Encode query\<rparr>
                 in (Redirect (url_String u') StatusFound, w1)))))"

text \<open>\<^verbatim>\<open>CreateGrant\<close>, the handler of GET and POST on the authorization endpoint.\<close>

definition vars :: "string list" where
  "vars = [''client_id'', ''state'', ''redirect_uri'', ''scope'', ''response_type'']"

definition readParams :: "Request \<Rightarrow> (string \<rightharpoonup> string)" where
  "readParams req = fold (\<lambda>v params. params(v \<mapsto> FormValue req v)) vars Map.empty"

definition CreateGrant ::
  "env \<Rightarrow> 's config \<Rightarrow> Request \<Rightarrow> 's world \<Rightarrow> response \<times> 's world" where
  "CreateGrant e cfg req w0 =
     (case do_IsUserAuthenticated cfg w0 of (yes, w1) \<Rightarrow>
      (if \<not> yes then
         (case do_LoginURL cfg (RequestURL req) w1 of (loginURL, w2) \<Rightarrow>
            (Redirect loginURL StatusFound, w2))
       else
         (let params = readParams req in
          (case authCodeGrant1 e cfg params w1 of
             (Inl resp, w2) \<Rightarrow> (resp, w2)
           | (Inr authzData, w2) \<Rightarrow>
               if Method req = ''GET'' then
                 (HTML \<lparr>Status = StatusOK, Data = authzData, Template = authzForm cfg,
                        STSMaxAge = stsMaxAge cfg\<rparr>, w2)
               else if param params ''response_type'' = ''token'' then
                 implicitGrant e cfg authzData w2
               else
                 (case do_GenAuthzCode cfg (Client authzData) (Scopes authzData) w2 of
                    ((grantCode, err), w3) \<Rightarrow>
                    (case err of
                       Some er \<Rightarrow> (renderErrors cfg [ErrServerError [] er], w3)
                     | None \<Rightarrow>
                       (case RedirectURL (Client authzData) of
                          None \<Rightarrow> (NilPointerPanic, w3)
                        | Some u \<Rightarrow>
                            (let query = url_Query e u;
                                 query = Values_Set query ''code'' (Code grantCode);
                                 query = Values_Set query ''state'' (State authzData);
                                 u' = u\<lparr>RawQuery := Values_Encode query\<rparr>
                             in (Redirect (url_String u') StatusFound, w3)))))))))"

section \<open>The token endpoint\<close>

text \<open>
  Modelled from the spec: the handler of the token endpoint (\<^verbatim>\<open>IssueToken\<close>) and the
  Provider's store of grant codes and tokens are not among the sources; the test
  \<^verbatim>\<open>TestReplayAttackProtection\<close> that calls them and the declaration of
  \<^verbatim>\<open>RevokeAuthzCode\<close> are. What follows is the spec's state machine: a grant is
  \<^verbatim>\<open>ISSUED\<close>, then \<^verbatim>\<open>REDEEMED\<close>, \<^verbatim>\<open>REVOKED\<close> or \<^verbatim>\<open>EXPIRED\<close>; a token is \<^verbatim>\<open>ACTIVE\<close>, then
  \<^verbatim>\<open>REVOKED\<close> or \<^verbatim>\<open>EXPIRED\<close>; every token refers to the grant it was issued from. Codes
  and token values are opaque: the store numbers them.
\<close>

datatype grant_status = ISSUED | REDEEMED | REVOKED | EXPIRED

datatype token_status = ACTIVE | TOKEN_REVOKED | TOKEN_EXPIRED

record grant =
  grant_client :: string
  grant_redirect_uri :: string
  grant_status :: grant_status

record issued_token =
  token_value :: nat
  token_grant :: nat
  token_status :: token_status

record token_store =
  grants :: "nat \<rightharpoonup> grant"
  tokens :: "issued_token list"
  next_code :: nat

text \<open>Modelled from the spec: the consent submission creates a grant bound to the client
  and to the redirect URI of the request, under a new code.\<close>

definition mint_grant :: "string \<Rightarrow> string \<Rightarrow> token_store \<Rightarrow> nat \<times> token_store" where
  "mint_grant client redirect_uri s =
     (next_code s,
      s\<lparr>grants := (grants s)(next_code s \<mapsto>
           \<lparr>grant_client = client, grant_redirect_uri = redirect_uri, grant_status = ISSUED\<rparr>),
        next_code := Suc (next_code s)\<rparr>)"

text \<open>Modelled from the spec: an issued grant that is not redeemed in time expires.\<close>

definition expire_grant :: "nat \<Rightarrow> token_store \<Rightarrow> token_store" where
  "expire_grant code s =
     (case grants s code of
        None \<Rightarrow> s
      | Some g \<Rightarrow>
          if grant_status g = ISSUED
          then s\<lparr>grants := (grants s)(code \<mapsto> g\<lparr>grant_status := EXPIRED\<rparr>)\<rparr>
          else s)"

text \<open>Modelled from the spec: \<^verbatim>\<open>RevokeAuthzCode\<close> "expires the grant code as well as all
  access and refresh tokens generated with it" (the cascade revocation).\<close>

definition revoke_token_of :: "nat \<Rightarrow> issued_token \<Rightarrow> issued_token" where
  "revoke_token_of code t =
     (if token_grant t = code then t\<lparr>token_status := TOKEN_REVOKED\<rparr> else t)"

definition RevokeAuthzCode :: "nat \<Rightarrow> token_store \<Rightarrow> token_store" where
  "RevokeAuthzCode code s =
     s\<lparr>grants := (case grants s code of
                     None \<Rightarrow> grants s
                   | Some g \<Rightarrow> (grants s)(code \<mapsto> g\<lparr>grant_status := REVOKED\<rparr>)),
       tokens := map (revoke_token_of code) (tokens s)\<rparr>"

text \<open>Modelled from the spec: the \<^verbatim>\<open>authorization_code\<close> exchange. The code must not have
  been used, revoked or expired (its grant is \<^verbatim>\<open>ISSUED\<close>), must belong to the authenticated
  client, and the submitted \<^verbatim>\<open>redirect_uri\<close> must be the one of the grant. Then an access
  token is issued from the grant and the grant is \<^verbatim>\<open>REDEEMED\<close>. On a violation the answer
  is the JSON error \<^verbatim>\<open>invalid_grant\<close> and every token issued from the code is revoked.\<close>

record token_request =
  req_client :: string
  req_code :: nat
  req_redirect_uri :: string

datatype token_response = TokenJSON nat string | ErrorJSON string string

definition invalid_grant :: token_response where
  "invalid_grant =
     ErrorJSON ''invalid_grant'' ''Grant code was revoked, expired or already used.''"

definition IssueToken :: "token_request \<Rightarrow> token_store \<Rightarrow> token_response \<times> token_store" where
  "IssueToken rq s =
     (case grants s (req_code rq) of
        None \<Rightarrow> (invalid_grant, s)
      | Some g \<Rightarrow>
          if grant_status g = ISSUED \<and> grant_client g = req_client rq
             \<and> grant_redirect_uri g = req_redirect_uri rq
          then
            (TokenJSON (length (tokens s)) ''bearer'',
             s\<lparr>grants := (grants s)(req_code rq \<mapsto> g\<lparr>grant_status := REDEEMED\<rparr>),
               tokens := tokens s @
                 [\<lparr>token_value = length (tokens s), token_grant = req_code rq,
                   token_status = ACTIVE\<rparr>]\<rparr>)
          else (invalid_grant, RevokeAuthzCode (req_code rq) s))"

text \<open>Modelled from the spec: a history of the store, which is not among the sources:
  consent submissions, exchanges at the token endpoint by authenticated clients, and
  expiries, in the order in which the Provider serializes them.\<close>

datatype event = Authorize string string | Exchange token_request | Expire nat

fun step :: "event \<Rightarrow> token_store \<Rightarrow> token_store" where
  "step (Authorize client redirect_uri) s = snd (mint_grant client redirect_uri s)"
| "step (Exchange rq) s = snd (IssueToken rq s)"
| "step (Expire code) s = expire_grant code s"

fun run :: "event list \<Rightarrow> token_store \<Rightarrow> token_store" where
  "run [] s = s"
| "run (ev # evs) s = run evs (step ev s)"

fun is_success :: "token_response \<Rightarrow> bool" where
  "is_success (TokenJSON v ty) = True"
| "is_success (ErrorJSON c d) = False"

text \<open>The number of successful exchanges of the code \<open>c\<close> in a history.\<close>

fun redeems :: "nat \<Rightarrow> event \<Rightarrow> token_store \<Rightarrow> bool" where
  "redeems c (Exchange rq) s = (req_code rq = c \<and> is_success (fst (IssueToken rq s)))"
| "redeems c ev s = False"

fun successes :: "nat \<Rightarrow> event list \<Rightarrow> token_store \<Rightarrow> nat" where
  "successes c [] s = 0"
| "successes c (ev # evs) s =
     (if redeems c ev s then 1 else 0) + successes c evs (step ev s)"

text \<open>The codes of a store are below the next code to be given out.\<close>

definition codes_fresh :: "token_store \<Rightarrow> bool" where
  "codes_fresh s = (\<forall>c \<in> dom (grants s). c < next_code s)"

text \<open>The code \<open>c\<close> is known to the store and its grant is no longer \<^verbatim>\<open>ISSUED\<close>.\<close>

definition spent :: "nat \<Rightarrow> token_store \<Rightarrow> bool" where
  "spent c s = (case grants s c of None \<Rightarrow> False | Some g \<Rightarrow> grant_status g \<noteq> ISSUED)"

definition empty_store :: token_store where
  "empty_store = \<lparr>grants = Map.empty, tokens = [], next_code = 0\<rparr>"

section \<open>Notions the properties are stated with\<close>

text \<open>The Provider calls that store a credential.\<close>

fun is_mint :: "call \<Rightarrow> bool" where
  "is_mint (Call_GenAuthzCode c scs) = True"
| "is_mint (Call_GenToken tt scs c) = True"
| "is_mint c = False"

definition mints :: "call list \<Rightarrow> call list" where
  "mints cs = filter is_mint cs"

text \<open>The pieces of a string between the occurrences of a separator, and the names of the
  parameters of a form-encoded string: its pieces between \<^verbatim>\<open>&\<close>, each up to its first
  \<^verbatim>\<open>=\<close>.\<close>

fun fields :: "char \<Rightarrow> string \<Rightarrow> string list" where
  "fields sep [] = [Nil]"
| "fields sep (c # cs) =
     (if c = sep then [] # fields sep cs
      else (case fields sep cs of [] \<Rightarrow> [c] # [] | f # fs \<Rightarrow> (c # f) # fs))"

definition param_names :: "string \<Rightarrow> string list" where
  "param_names s = map (takeWhile (\<lambda>c. c \<noteq> CHR ''='')) (fields (CHR ''&'') s)"

section \<open>A test fixture\<close>

text \<open>
  The fixture of the package's tests: an authenticated session, one client
  \<^verbatim>\<open>test_client_id\<close> registered with \<^verbatim>\<open>https://example.com/cb\<close>, scopes given by name,
  tokens of type \<^verbatim>\<open>bearer\<close> that expire in 600 seconds. The Provider's state counts the
  credentials it has stored.
\<close>

definition registeredURL :: URL where
  "registeredURL = emptyURL\<lparr>Scheme := ''https'', Host := ''example.com'', Path := ''/cb''\<rparr>"

definition test_client :: Client where
  "test_client = \<lparr>ID = ''test_client_id'', Name = ''Test Client'', Desc = [],
     ProfileImgURL = [], HomepageURL = [], RedirectURL = Some registeredURL\<rparr>"

definition test_provider :: "bool \<Rightarrow> nat Provider" where
  "test_provider authenticated =
     \<lparr>IsUserAuthenticated = (\<lambda>s. authenticated),
      LoginURL = (\<lambda>s referer. ''/login?referer='' @ QueryEscape referer),
      ClientInfo = (\<lambda>s clientID.
         if clientID = ''test_client_id'' then (test_client, None)
         else (zeroClient, Some (Error ''client not found''))),
      ScopesInfo = (\<lambda>s scope.
         (map (\<lambda>n. \<lparr>Scope_ID = n, Scope_Desc = []\<rparr>) (fields (CHR '' '') scope), None)),
      GenAuthzCode = (\<lambda>s c scs. ((\<lparr>Code = ''grant-code''\<rparr>, None), Suc s)),
      GenToken = (\<lambda>s tt scs c.
         ((\<lparr>Token_Value = ''access-token'', Token_Type = ''bearer'',
            Token_ExpiresIn = 600 * 1000000000, Token_Scope = scs\<rparr>, None), Suc s))\<rparr>"

text \<open>A Provider that reports an unknown client by the zero \<^verbatim>\<open>Client\<close> and no error.\<close>

definition silent_provider :: "nat Provider" where
  "silent_provider =
     (test_provider True)\<lparr>ClientInfo := (\<lambda>s clientID.
        if clientID = ''test_client_id'' then (test_client, None) else (zeroClient, None))\<rparr>"

definition silent_config :: "nat config" where
  "silent_config = \<lparr>provider = silent_provider, authzForm = ''<form>'', stsMaxAge = 0\<rparr>"

definition test_config :: "bool \<Rightarrow> nat config" where
  "test_config authenticated =
     \<lparr>provider = test_provider authenticated, authzForm = ''<form>'', stsMaxAge = 0\<rparr>"

text \<open>
  The standard library at the inputs of the fixture. \<^verbatim>\<open>url.Parse\<close>: the empty string
  parses to the empty URL; what follows the first \<^verbatim>\<open>#\<close> is the fragment, and a URL with an
  empty fragment is the URL without one. Nothing below parses a string outside the table,
  which answers such a string as \<^verbatim>\<open>url.Parse\<close> answers one with an invalid escape. The
  registered URL has no query, so \<^verbatim>\<open>url.ParseQuery\<close> is only asked for the empty map; the
  one duration to format is 600 seconds. \<^verbatim>\<open>EncodeErrInURI\<close> sets the error code and the
  state, \<^verbatim>\<open>StringifyScopes\<close> separates the scope names by spaces.
\<close>

definition test_Parse :: "string \<Rightarrow> go_error + URL" where
  "test_Parse s =
     (if s = [] then Inr emptyURL
      else if s = ''https://example.com/cb'' then Inr registeredURL
      else if s = ''https://example.com/cb#'' then Inr registeredURL
      else if s = ''https://attacker.com/cb'' then
        Inr (emptyURL\<lparr>Scheme := ''https'', Host := ''attacker.com'', Path := ''/cb''\<rparr>)
      else if s = ''http://attacker.com/cb'' then
        Inr (emptyURL\<lparr>Scheme := ''http'', Host := ''attacker.com'', Path := ''/cb''\<rparr>)
      else Inl (Error ''invalid URL escape''))"

definition test_env :: env where
  "test_env =
     \<lparr>url_Parse = test_Parse,
      url_ParseQuery = (\<lambda>s. []),
      FormatSeconds = (\<lambda>d. if d = 600 * 1000000000 then ''600'' else ''0''),
      EncodeErrInURI = (\<lambda>query err.
         Values_Set (Values_Set query ''error'' (Err_Code err)) ''state''
           (case err of ErrStateRequired st \<Rightarrow> st | ErrUnsupportedResponseType st \<Rightarrow> st
            | ErrScopeRequired st \<Rightarrow> st | ErrServerError st er \<Rightarrow> st | _ \<Rightarrow> [])),
      StringifyScopes = (\<lambda>scs. join '' '' (map Scope_ID scs))\<rparr>"

definition world0 :: "nat world" where
  "world0 = \<lparr>store = 0, calls = []\<rparr>"

definition test_request :: "string \<Rightarrow> (string \<times> string) list \<Rightarrow> Request" where
  "test_request m ps =
     \<lparr>Method = m, RequestURL = ''https://example.com/oauth2/authzs'',
      Form = map (\<lambda>(k, v). (k, [v])) ps\<rparr>"

text \<open>Requests of the tests: a consent submission whose \<^verbatim>\<open>redirect_uri\<close> is not the
  registered one, and a request without \<^verbatim>\<open>state\<close>.\<close>

definition req_mismatch :: Request where
  "req_mismatch = test_request ''POST'' [(''client_id'', ''test_client_id''), (''response_type'', ''code''), (''state'', ''st''), (''redirect_uri'', ''https://attacker.com/cb''), (''scope'', ''read write identity'')]"

definition req_no_state :: Request where
  "req_no_state = test_request ''GET'' [(''client_id'', ''test_client_id''), (''response_type'', ''code''), (''redirect_uri'', ''https://example.com/cb''), (''scope'', ''read write identity'')]"

text \<open>A store with one grant, code 0, and the exchange that redeems it.\<close>

definition store1 :: token_store where
  "store1 = step (Authorize ''test_client_id'' ''https://example.com/cb'') empty_store"

definition exchange0 :: token_request where
  "exchange0 = \<lparr>req_client = ''test_client_id'', req_code = 0,
     req_redirect_uri = ''https://example.com/cb''\<rparr>"

text \<open>Further requests: one whose \<^verbatim>\<open>redirect_uri\<close> ends in an empty fragment, one with a
  plaintext \<^verbatim>\<open>redirect_uri\<close>, requests without \<^verbatim>\<open>scope\<close> and without \<^verbatim>\<open>redirect_uri\<close>, one of
  a client the Provider does not know, and the consent submission of the implicit flow.
  Then a parameter map that lacks the key \<^verbatim>\<open>redirect_uri\<close>, and the validated data of an
  implicit request.\<close>

definition req_fragment :: Request where
  "req_fragment = test_request ''POST'' [(''client_id'', ''test_client_id''),
     (''response_type'', ''code''), (''state'', ''st''),
     (''redirect_uri'', ''https://example.com/cb#''), (''scope'', ''read'')]"

definition req_plaintext :: Request where
  "req_plaintext = test_request ''POST'' [(''client_id'', ''test_client_id''),
     (''response_type'', ''code''), (''state'', ''st''),
     (''redirect_uri'', ''http://attacker.com/cb''), (''scope'', ''read'')]"

definition req_no_scope :: Request where
  "req_no_scope = test_request ''GET'' [(''client_id'', ''test_client_id''),
     (''response_type'', ''code''), (''state'', ''st''),
     (''redirect_uri'', ''https://example.com/cb'')]"

definition req_no_redirect_uri :: Request where
  "req_no_redirect_uri = test_request ''GET'' [(''client_id'', ''test_client_id''),
     (''response_type'', ''code''), (''state'', ''st''), (''scope'', ''read write identity'')]"

definition req_unknown_client :: Request where
  "req_unknown_client = test_request ''GET'' [(''client_id'', ''unknown_client_id''),
     (''response_type'', ''code''), (''state'', ''st''),
     (''redirect_uri'', ''https://example.com/cb''), (''scope'', ''read write identity'')]"

definition req_implicit :: Request where
  "req_implicit = test_request ''POST'' [(''client_id'', ''test_client_id''),
     (''response_type'', ''token''), (''state'', ''st''),
     (''redirect_uri'', ''https://example.com/cb''), (''scope'', ''read write identity'')]"

definition params_without_redirect_uri :: "string \<rightharpoonup> string" where
  "params_without_redirect_uri =
     [''client_id'' \<mapsto> ''test_client_id'', ''response_type'' \<mapsto> ''code'',
      ''state'' \<mapsto> ''st'', ''scope'' \<mapsto> ''read'']"

definition test_authzData :: AuthzData where
  "test_authzData = \<lparr>Client = test_client,
     Scopes = [\<lparr>Scope_ID = ''read'', Scope_Desc = []\<rparr>], Errors = [],
     GrantType = ''token'', State = ''st''\<rparr>"

text \<open>Two more requests with a plaintext \<^verbatim>\<open>redirect_uri\<close>: one without \<^verbatim>\<open>client_id\<close>, one of
  a client the Provider does not know.\<close>

definition req_plaintext_no_client :: Request where
  "req_plaintext_no_client = test_request ''POST'' [(''response_type'', ''code''),
     (''state'', ''st''), (''redirect_uri'', ''http://attacker.com/cb''), (''scope'', ''read'')]"

definition req_plaintext_unknown_client :: Request where
  "req_plaintext_unknown_client = test_request ''POST'' [(''client_id'', ''unknown_client_id''),
     (''response_type'', ''code''), (''state'', ''st''),
     (''redirect_uri'', ''http://attacker.com/cb''), (''scope'', ''read'')]"

section \<open>The parser: which channel a failure takes\<close>

lemma world_simps [simp]:
  "store (logged c w) = store w" "calls (logged c w) = calls w @ [c]"
  by (simp_all add: logged_def)

lemma authCodeGrant1_store: "store (snd (authCodeGrant1 e cfg params w)) = store w"
  by (simp add: authCodeGrant1_def do_ClientInfo_def do_ScopesInfo_def Let_def
      split: prod.splits option.splits sum.splits)

lemma authCodeGrant1_calls:
  "\<exists>cs. calls (snd (authCodeGrant1 e cfg params w)) = calls w @ cs \<and> mints cs = []"
  by (simp add: authCodeGrant1_def do_ClientInfo_def do_ScopesInfo_def Let_def mints_def
      split: prod.splits option.splits sum.splits)




section \<open>The token endpoint: a grant is redeemed once\<close>

lemma codes_fresh_mint: "codes_fresh s \<Longrightarrow> codes_fresh (snd (mint_grant cl r s))"
  by (auto simp: codes_fresh_def mint_grant_def less_Suc_eq)

lemma dom_RevokeAuthzCode: "dom (grants (RevokeAuthzCode c s)) = dom (grants s)"
  by (auto simp: RevokeAuthzCode_def split: option.splits)

lemma next_RevokeAuthzCode: "next_code (RevokeAuthzCode c s) = next_code s"
  by (simp add: RevokeAuthzCode_def)

lemma codes_fresh_IssueToken: "codes_fresh s \<Longrightarrow> codes_fresh (snd (IssueToken rq s))"
  unfolding codes_fresh_def IssueToken_def
  by (auto simp: dom_RevokeAuthzCode next_RevokeAuthzCode split: option.splits)

lemma codes_fresh_expire: "codes_fresh s \<Longrightarrow> codes_fresh (expire_grant c s)"
  unfolding codes_fresh_def expire_grant_def
  by (auto split: option.splits)

lemma codes_fresh_step: "codes_fresh s \<Longrightarrow> codes_fresh (step ev s)"
  by (cases ev) (simp_all add: codes_fresh_mint codes_fresh_IssueToken codes_fresh_expire)

lemma spent_mint: "codes_fresh s \<Longrightarrow> spent c s \<Longrightarrow> spent c (snd (mint_grant cl r s))"
  by (auto simp: spent_def codes_fresh_def mint_grant_def dom_def split: option.splits)

lemma spent_RevokeAuthzCode: "spent c s \<Longrightarrow> spent c (RevokeAuthzCode c' s)"
  by (auto simp: spent_def RevokeAuthzCode_def split: option.splits)

lemma spent_IssueToken: "spent c s \<Longrightarrow> spent c (snd (IssueToken rq s))"
  unfolding IssueToken_def
  by (auto simp: spent_RevokeAuthzCode split: option.splits) (auto simp: spent_def split: option.splits)

lemma spent_expire: "spent c s \<Longrightarrow> spent c (expire_grant c' s)"
  by (auto simp: spent_def expire_grant_def split: option.splits)

lemma spent_step: "codes_fresh s \<Longrightarrow> spent c s \<Longrightarrow> spent c (step ev s)"
  by (cases ev) (simp_all add: spent_mint spent_IssueToken spent_expire)

lemma spent_run: "codes_fresh s \<Longrightarrow> spent c s \<Longrightarrow> spent c (run evs s)"
  by (induction evs arbitrary: s) (simp_all add: codes_fresh_step spent_step)

lemma spent_refused:
  "spent c s \<Longrightarrow> req_code rq = c \<Longrightarrow> IssueToken rq s = (invalid_grant, RevokeAuthzCode c s)"
  by (auto simp: spent_def IssueToken_def split: option.splits)

lemma revoke_token_of_status:
  "token_grant (revoke_token_of c t) = c \<Longrightarrow> token_status (revoke_token_of c t) = TOKEN_REVOKED"
  by (cases "token_grant t = c") (simp_all add: revoke_token_of_def)

lemma revoked_all:
  assumes "t \<in> set (tokens (RevokeAuthzCode c s))" and "token_grant t = c"
  shows "token_status t = TOKEN_REVOKED"
proof -
  from assms(1) obtain t0 where "t = revoke_token_of c t0"
    by (auto simp: RevokeAuthzCode_def)
  with assms(2) show ?thesis by (simp add: revoke_token_of_status)
qed

lemma success_spent:
  "is_success (fst (IssueToken rq s)) \<Longrightarrow> spent (req_code rq) (snd (IssueToken rq s))"
  by (auto simp: spent_def IssueToken_def invalid_grant_def split: option.splits if_splits)

lemma successes_spent: "codes_fresh s \<Longrightarrow> spent c s \<Longrightarrow> successes c evs s = 0"
proof (induction evs arbitrary: s)
  case Nil
  then show ?case by simp
next
  case (Cons ev evs)
  have "\<not> redeems c ev s"
  proof (cases ev)
    case (Exchange rq)
    then show ?thesis using Cons.prems(2) by (auto simp: spent_refused invalid_grant_def)
  qed simp_all
  then show ?case using Cons by (simp add: codes_fresh_step spent_step)
qed

lemma successes_le_1: "codes_fresh s \<Longrightarrow> successes c evs s \<le> 1"
proof (induction evs arbitrary: s)
  case Nil
  then show ?case by simp
next
  case (Cons ev evs)
  show ?case
  proof (cases "redeems c ev s")
    case True
    then obtain rq where ev: "ev = Exchange rq" and c: "req_code rq = c"
      and ok: "is_success (fst (IssueToken rq s))"
      by (cases ev) auto
    have "spent c (step ev s)" using success_spent[OF ok] ev c by simp
    then have "successes c evs (step ev s) = 0"
      using successes_spent codes_fresh_step Cons.prems by blast
    then show ?thesis using True by simp
  next
    case False
    then show ?thesis using Cons.IH[OF codes_fresh_step[OF Cons.prems]] by simp
  qed
qed

text \<open>
  C2 (on the spec's model of the token endpoint). In every history of a store whose codes
  are fresh, at most one exchange of a code \<open>c\<close> succeeds. When an exchange of \<open>c\<close> has
  succeeded, a later presentation of \<open>c\<close>, after any further events, is answered by the JSON
  error \<^verbatim>\<open>invalid_grant\<close>, and afterwards every token issued from \<open>c\<close> is revoked.
\<close>

theorem one_shot_grant:
  assumes "codes_fresh s"
  shows "successes c evs s \<le> 1 \<and>
    (is_success (fst (IssueToken rq s)) \<and> req_code rq = c \<and> req_code rq' = c \<longrightarrow>
       fst (IssueToken rq' (run evs (snd (IssueToken rq s)))) = invalid_grant \<and>
       (\<forall>t \<in> set (tokens (snd (IssueToken rq' (run evs (snd (IssueToken rq s)))))).
          token_grant t = c \<longrightarrow> token_status t = TOKEN_REVOKED))"
proof (intro conjI impI)
  show "successes c evs s \<le> 1" by (rule successes_le_1[OF assms])
next
  assume h: "is_success (fst (IssueToken rq s)) \<and> req_code rq = c \<and> req_code rq' = c"
  let ?s1 = "snd (IssueToken rq s)"
  have "codes_fresh ?s1" using codes_fresh_step[OF assms, of "Exchange rq"] by simp
  moreover have "spent c ?s1" using success_spent h by blast
  ultimately have sp: "spent c (run evs ?s1)" by (rule spent_run)
  have eq: "IssueToken rq' (run evs ?s1) = (invalid_grant, RevokeAuthzCode c (run evs ?s1))"
    using spent_refused[OF sp] h by simp
  show "fst (IssueToken rq' (run evs ?s1)) = invalid_grant" by (simp add: eq)
  show "\<forall>t \<in> set (tokens (snd (IssueToken rq' (run evs ?s1)))).
          token_grant t = c \<longrightarrow> token_status t = TOKEN_REVOKED"
    by (simp add: eq revoked_all)
qed

theorem one_shot_grant_witness:
  "successes 0 [Exchange exchange0, Exchange exchange0] store1 \<le> 1 \<and>
   is_success (fst (IssueToken exchange0 store1)) \<and>
   fst (IssueToken exchange0 (run [] (snd (IssueToken exchange0 store1)))) = invalid_grant \<and>
   filter (\<lambda>t. token_grant t = 0 \<and> token_status t \<noteq> TOKEN_REVOKED)
     (tokens (snd (IssueToken exchange0 (run [] (snd (IssueToken exchange0 store1)))))) = []"
proof -
  have fresh: "codes_fresh store1"
    by (simp add: store1_def codes_fresh_def mint_grant_def empty_store_def)
  have ok: "is_success (fst (IssueToken exchange0 store1))"
    by (simp add: store1_def exchange0_def IssueToken_def mint_grant_def empty_store_def)
  have c: "req_code exchange0 = 0" by (simp add: exchange0_def)
  show ?thesis
    unfolding filter_empty_conv
    using one_shot_grant [OF fresh, of 0 "[Exchange exchange0, Exchange exchange0]" exchange0 exchange0]
      one_shot_grant [OF fresh, of 0 "[]" exchange0 exchange0] ok c
    by blast
qed

section \<open>The handler: what a request can change\<close>

lemma readParams_Some: "k \<in> set vars \<Longrightarrow> readParams req k = Some (FormValue req k)"
  by (auto simp: readParams_def vars_def)

lemma param_readParams: "k \<in> set vars \<Longrightarrow> param (readParams req) k = FormValue req k"
  by (simp add: param_def readParams_Some)

lemma CreateGrant_login:
  "\<not> IsUserAuthenticated (provider cfg) (store w) \<Longrightarrow>
   CreateGrant e cfg req w =
     (Redirect (LoginURL (provider cfg) (store w) (RequestURL req)) StatusFound,
      logged (Call_LoginURL (RequestURL req)) (logged Call_IsUserAuthenticated w))"
  by (simp add: CreateGrant_def do_IsUserAuthenticated_def do_LoginURL_def)

lemma CreateGrant_parser_response:
  "IsUserAuthenticated (provider cfg) (store w) \<Longrightarrow>
   authCodeGrant1 e cfg (readParams req) (logged Call_IsUserAuthenticated w) = (Inl resp, w') \<Longrightarrow>
   CreateGrant e cfg req w = (resp, w')"
  by (simp add: CreateGrant_def do_IsUserAuthenticated_def)







section \<open>Redirect URIs that are refused\<close>

lemma redirect_refused_by_parser:
  assumes "params ''redirect_uri'' = Some u" and "url_Parse e u = Inr ru"
    and "param params ''client_id'' \<noteq> []"
    and "ClientInfo (provider cfg) (store w) (param params ''client_id'') = (cinfo, None)"
  shows "Scheme ru \<noteq> ''https'' \<Longrightarrow>
           authCodeGrant1 e cfg params w =
             (Inl (renderErrors cfg [ErrRedirectURLInvalid]),
              logged (Call_ClientInfo (param params ''client_id'')) w)"
    and "Scheme ru = ''https'' \<Longrightarrow> RedirectURL cinfo = Some registered \<Longrightarrow>
         url_String ru \<noteq> url_String registered \<Longrightarrow>
           authCodeGrant1 e cfg params w =
             (Inl (renderErrors cfg [ErrRedirectURLMismatch]),
              logged (Call_ClientInfo (param params ''client_id'')) w)"
  using assms
  by (simp_all add: authCodeGrant1_def do_ClientInfo_def Let_def addr_is_nil_def
      redirectTarget_def)

lemma non_https_never_passes:
  assumes "params ''redirect_uri'' = Some u" and "url_Parse e u = Inr ru"
    and "Scheme ru \<noteq> ''https''"
  shows "\<exists>resp. fst (authCodeGrant1 e cfg params w) = Inl resp"
  using assms
  by (simp add: authCodeGrant1_def do_ClientInfo_def Let_def addr_is_nil_def
      redirectTarget_def split: prod.splits option.splits)

text \<open>
  C4, as stated, fails in its first part: the scheme is checked after the session, the
  \<^verbatim>\<open>client_id\<close> and the client lookup. A request with the plaintext \<^verbatim>\<open>redirect_uri\<close>
  \<^verbatim>\<open>http://attacker.com/cb\<close> is answered by a 302 redirect to the login URL when the
  resource owner is not authenticated, by the page with \<^verbatim>\<open>invalid_request\<close> when it has no
  \<^verbatim>\<open>client_id\<close>, and by the page with \<^verbatim>\<open>server_error\<close> when the lookup of its client fails;
  none of the three is the page with \<^verbatim>\<open>access_denied\<close>.
\<close>

theorem plaintext_redirect_counterexample:
  "url_Parse test_env (FormValue req_plaintext ''redirect_uri'')
     = Inr \<lparr>Scheme = ''http'', Opaque = [], Host = ''attacker.com'', Path = ''/cb'',
            RawQuery = [], Fragment = []\<rparr> \<and>
   fst (CreateGrant test_env (test_config False) req_plaintext world0)
     = Redirect ''/login?referer=https%3A%2F%2Fexample.com%2Foauth2%2Fauthzs'' StatusFound \<and>
   FormValue req_plaintext_no_client ''redirect_uri'' = ''http://attacker.com/cb'' \<and>
   fst (CreateGrant test_env (test_config True) req_plaintext_no_client world0)
     = HTML \<lparr>Status = 200,
         Data = \<lparr>Client = zeroClient, Scopes = [], Errors = [ErrClientIDMissing],
                  GrantType = [], State = []\<rparr>,
         Template = ''<form>'', STSMaxAge = 0\<rparr> \<and>
   Err_Code ErrClientIDMissing = ''invalid_request'' \<and>
   FormValue req_plaintext_unknown_client ''redirect_uri'' = ''http://attacker.com/cb'' \<and>
   fst (CreateGrant test_env (test_config True) req_plaintext_unknown_client world0)
     = HTML \<lparr>Status = 200,
         Data = \<lparr>Client = zeroClient, Scopes = [],
                  Errors = [ErrServerError [] (Error ''client not found'')],
                  GrantType = [], State = []\<rparr>,
         Template = ''<form>'', STSMaxAge = 0\<rparr> \<and>
   Err_Code (ErrServerError [] (Error ''client not found'')) = ''server_error''"
  by code_simp

text \<open>
  C4, amended. Take a request whose \<^verbatim>\<open>redirect_uri\<close> parses to a URL with a scheme other
  than \<^verbatim>\<open>https\<close>. Whatever else it carries, the handler leaves the Provider's state as it
  was and calls neither \<^verbatim>\<open>GenAuthzCode\<close> nor \<^verbatim>\<open>GenToken\<close>. When the resource owner is
  authenticated, the \<^verbatim>\<open>client_id\<close> is present and the lookup returns no error, the response
  is an HTML page: status 200, the form template, and exactly one error,
  \<^verbatim>\<open>ErrRedirectURLInvalid\<close>, whose code is \<^verbatim>\<open>access_denied\<close>.
\<close>

theorem plaintext_redirect_refused:
  assumes parse: "url_Parse e (FormValue req ''redirect_uri'') = Inr ru"
    and scheme: "Scheme ru \<noteq> ''https''"
  shows "store (snd (CreateGrant e cfg req w)) = store w \<and>
     (\<exists>cs. calls (snd (CreateGrant e cfg req w)) = calls w @ cs \<and> mints cs = []) \<and>
     (IsUserAuthenticated (provider cfg) (store w) \<and> FormValue req ''client_id'' \<noteq> [] \<and>
      snd (ClientInfo (provider cfg) (store w) (FormValue req ''client_id'')) = None
      \<longrightarrow> (\<exists>opts er. fst (CreateGrant e cfg req w) = HTML opts \<and> Status opts = StatusOK \<and>
             Template opts = authzForm cfg \<and> Errors (Data opts) = [er] \<and>
             er = ErrRedirectURLInvalid \<and> Err_Code er = ''access_denied''))"
proof (cases "IsUserAuthenticated (provider cfg) (store w)")
  case False
  show ?thesis using False by (simp add: CreateGrant_login mints_def)
next
  case True
  let ?w1 = "logged Call_IsUserAuthenticated w"
  let ?ps = "readParams req"
  have key: "?ps ''redirect_uri'' = Some (FormValue req ''redirect_uri'')"
    by (simp add: readParams_Some vars_def)
  obtain resp where r: "fst (authCodeGrant1 e cfg ?ps ?w1) = Inl resp"
    using non_https_never_passes[where params = ?ps, OF key parse scheme] by blast
  then have cg: "CreateGrant e cfg req w = (resp, snd (authCodeGrant1 e cfg ?ps ?w1))"
    using CreateGrant_parser_response[OF True, of e req resp "snd (authCodeGrant1 e cfg ?ps ?w1)"]
    by (metis prod.collapse)
  have st: "store (snd (CreateGrant e cfg req w)) = store w"
    using authCodeGrant1_store[of e cfg ?ps ?w1] by (simp add: cg)
  obtain cs where "calls (snd (authCodeGrant1 e cfg ?ps ?w1)) = calls ?w1 @ cs" "mints cs = []"
    using authCodeGrant1_calls[of e cfg ?ps ?w1] by auto
  then have log: "\<exists>cs'. calls (snd (CreateGrant e cfg req w)) = calls w @ cs' \<and> mints cs' = []"
    by (simp add: cg mints_def)
  have page: "\<exists>opts er. fst (CreateGrant e cfg req w) = HTML opts \<and> Status opts = StatusOK \<and>
             Template opts = authzForm cfg \<and> Errors (Data opts) = [er] \<and>
             er = ErrRedirectURLInvalid \<and> Err_Code er = ''access_denied''"
    if cid: "FormValue req ''client_id'' \<noteq> []"
      and ci: "snd (ClientInfo (provider cfg) (store w) (FormValue req ''client_id'')) = None"
  proof -
    have p: "param ?ps ''client_id'' = FormValue req ''client_id''"
      by (simp add: param_readParams vars_def)
    obtain cinfo where "ClientInfo (provider cfg) (store ?w1) (param ?ps ''client_id'') = (cinfo, None)"
      using ci p by (cases "ClientInfo (provider cfg) (store w) (FormValue req ''client_id'')") simp
    from redirect_refused_by_parser(1)[where params = ?ps, OF key parse _ this scheme] cid p r
    have "resp = renderErrors cfg [ErrRedirectURLInvalid]" by simp
    then show ?thesis by (simp add: cg renderErrors_def errorData_def)
  qed
  show ?thesis using st log page by simp
qed

theorem plaintext_redirect_refused_witness:
  "store (snd (CreateGrant test_env (test_config True) req_plaintext world0)) = store world0 \<and>
   (\<exists>cs. calls (snd (CreateGrant test_env (test_config True) req_plaintext world0))
       = calls world0 @ cs \<and> mints cs = []) \<and>
   (\<exists>opts. fst (CreateGrant test_env (test_config True) req_plaintext world0) = HTML opts \<and>
      Status opts = StatusOK \<and> Errors (Data opts) = [ErrRedirectURLInvalid])"
proof -
  let ?att = "emptyURL\<lparr>Scheme := ''http'', Host := ''attacker.com'', Path := ''/cb''\<rparr>"
  have h: "url_Parse test_env (FormValue req_plaintext ''redirect_uri'') = Inr ?att"
    "Scheme ?att \<noteq> ''https''"
    by code_simp+
  have c: "IsUserAuthenticated (provider (test_config True)) (store world0) \<and>
      FormValue req_plaintext ''client_id'' \<noteq> [] \<and>
      snd (ClientInfo (provider (test_config True)) (store world0)
             (FormValue req_plaintext ''client_id'')) = None"
    by code_simp
  show ?thesis
    using plaintext_redirect_refused [OF h, of "test_config True" world0] c by blast
qed

text \<open>
  C3, as stated, fails twice. The handler compares \<^verbatim>\<open>redirectURL.String()\<close> with
  \<^verbatim>\<open>cinfo.RedirectURL.String()\<close>, the parsed URLs written back, not the bytes received: the
  \<^verbatim>\<open>redirect_uri\<close> \<^verbatim>\<open>https://example.com/cb#\<close> is not byte-equal to the registered
  \<^verbatim>\<open>https://example.com/cb\<close>, yet its consent submission is answered by a redirect with a
  grant code, and \<^verbatim>\<open>GenAuthzCode\<close> has been called. And the session is checked first: the
  request with the \<^verbatim>\<open>redirect_uri\<close> \<^verbatim>\<open>https://attacker.com/cb\<close> of a resource owner who is not
  authenticated is answered by a 302 redirect to the login URL, not by a page.
\<close>

theorem redirect_mismatch_counterexample:
  "FormValue req_fragment ''redirect_uri'' \<noteq> url_String registeredURL \<and>
   ClientInfo (provider (test_config True)) (store world0) (FormValue req_fragment ''client_id'')
     = (test_client, None) \<and>
   RedirectURL test_client = Some registeredURL \<and>
   fst (CreateGrant test_env (test_config True) req_fragment world0)
     = Redirect ''https://example.com/cb?code=grant-code&state=st'' StatusFound \<and>
   store (snd (CreateGrant test_env (test_config True) req_fragment world0)) = 1 \<and>
   mints (calls (snd (CreateGrant test_env (test_config True) req_fragment world0)))
     = [Call_GenAuthzCode test_client [\<lparr>Scope_ID = ''read'', Scope_Desc = []\<rparr>]] \<and>
   FormValue req_mismatch ''redirect_uri'' \<noteq> url_String registeredURL \<and>
   fst (CreateGrant test_env (test_config False) req_mismatch world0)
     = Redirect ''/login?referer=https%3A%2F%2Fexample.com%2Foauth2%2Fauthzs'' StatusFound"
  by code_simp

text \<open>
  C3, amended. Take a request whose \<^verbatim>\<open>client_id\<close> names a client with a registered redirect
  URL, and whose \<^verbatim>\<open>redirect_uri\<close> parses to a URL that \<^verbatim>\<open>String()\<close> writes differently from
  the registered one. The Provider's state is as it was and neither \<^verbatim>\<open>GenAuthzCode\<close> nor
  \<^verbatim>\<open>GenToken\<close> has been called. When the resource owner is authenticated, the response is an
  HTML page: status 200, the form template, and exactly one error, of code
  \<^verbatim>\<open>access_denied\<close>; it is not a redirect.
\<close>

theorem redirect_mismatch_refused:
  assumes cid: "FormValue req ''client_id'' \<noteq> []"
    and ci: "ClientInfo (provider cfg) (store w) (FormValue req ''client_id'') = (cinfo, None)"
    and reg: "RedirectURL cinfo = Some registered"
    and parse: "url_Parse e (FormValue req ''redirect_uri'') = Inr ru"
    and differ: "url_String ru \<noteq> url_String registered"
  shows "store (snd (CreateGrant e cfg req w)) = store w \<and>
     mints (calls (snd (CreateGrant e cfg req w))) = mints (calls w) \<and>
     (IsUserAuthenticated (provider cfg) (store w) \<longrightarrow>
        (\<exists>opts er. fst (CreateGrant e cfg req w) = HTML opts \<and> Status opts = StatusOK \<and>
           Template opts = authzForm cfg \<and> Errors (Data opts) = [er] \<and>
           (er = ErrRedirectURLInvalid \<or> er = ErrRedirectURLMismatch) \<and>
           Err_Code er = ''access_denied'') \<and>
        (\<forall>loc code. fst (CreateGrant e cfg req w) \<noteq> Redirect loc code))"
proof (cases "IsUserAuthenticated (provider cfg) (store w)")
  case False
  show ?thesis using False by (simp add: CreateGrant_login mints_def)
next
  case auth: True
  let ?w1 = "logged Call_IsUserAuthenticated w"
  let ?ps = "readParams req"
  have key: "?ps ''redirect_uri'' = Some (FormValue req ''redirect_uri'')"
    by (simp add: readParams_Some vars_def)
  have p: "param ?ps ''client_id'' = FormValue req ''client_id''"
    by (simp add: param_readParams vars_def)
  have ci': "ClientInfo (provider cfg) (store ?w1) (param ?ps ''client_id'') = (cinfo, None)"
    using ci p by simp
  have cid': "param ?ps ''client_id'' \<noteq> []" using cid p by simp
  obtain er where
    a: "authCodeGrant1 e cfg ?ps ?w1 =
          (Inl (renderErrors cfg [er]), logged (Call_ClientInfo (param ?ps ''client_id'')) ?w1)"
    and which: "er = ErrRedirectURLInvalid \<or> er = ErrRedirectURLMismatch"
  proof (cases "Scheme ru = ''https''")
    case True
    from redirect_refused_by_parser(2)[where params = ?ps, OF key parse cid' ci' True reg differ] that
    show ?thesis by simp
  next
    case False
    from redirect_refused_by_parser(1)[where params = ?ps, OF key parse cid' ci' False] that
    show ?thesis by simp
  qed
  have "CreateGrant e cfg req w =
      (renderErrors cfg [er], logged (Call_ClientInfo (param ?ps ''client_id'')) ?w1)"
    using CreateGrant_parser_response[OF auth a] .
  then show ?thesis using which
    by (auto simp: mints_def renderErrors_def errorData_def)
qed

theorem redirect_mismatch_refused_witness:
  "store (snd (CreateGrant test_env (test_config True) req_mismatch world0)) = store world0 \<and>
   mints (calls (snd (CreateGrant test_env (test_config True) req_mismatch world0)))
     = mints (calls world0) \<and>
   (\<exists>opts er. fst (CreateGrant test_env (test_config True) req_mismatch world0) = HTML opts \<and>
      Status opts = StatusOK \<and> Errors (Data opts) = [er] \<and> Err_Code er = ''access_denied'')"
proof -
  let ?att = "emptyURL\<lparr>Scheme := ''https'', Host := ''attacker.com'', Path := ''/cb''\<rparr>"
  have h: "FormValue req_mismatch ''client_id'' \<noteq> []"
    "ClientInfo (provider (test_config True)) (store world0) (FormValue req_mismatch ''client_id'')
       = (test_client, None)"
    "RedirectURL test_client = Some registeredURL"
    "url_Parse test_env (FormValue req_mismatch ''redirect_uri'') = Inr ?att"
    "url_String ?att \<noteq> url_String registeredURL"
    by code_simp+
  have auth: "IsUserAuthenticated (provider (test_config True)) (store world0)"
    by code_simp
  show ?thesis
    using redirect_mismatch_refused [OF h] auth by blast
qed

section \<open>Error redirects and the omitted redirect URI\<close>

lemma error_redirect_location: "redirectError e u err = Redirect (url_String u) StatusFound"
  by (simp add: redirectError_def Let_def)

lemma error_redirect_is_registered_url:
  assumes "IsUserAuthenticated (provider cfg) (store w)"
    and "FormValue req ''client_id'' \<noteq> []"
    and "ClientInfo (provider cfg) (store w) (FormValue req ''client_id'') = (cinfo, None)"
    and "RedirectURL cinfo = Some registered"
    and "url_Parse e (FormValue req ''redirect_uri'') = Inr ru"
    and "Scheme ru = ''https''" and "url_String ru = url_String registered"
    and "FormValue req ''state'' = [] \<or> FormValue req ''scope'' = []"
  shows "fst (CreateGrant e cfg req w) = Redirect (url_String registered) StatusFound"
proof -
  have ps: "readParams req ''redirect_uri'' = Some (FormValue req ''redirect_uri'')"
    "param (readParams req) ''client_id'' = FormValue req ''client_id''"
    "param (readParams req) ''state'' = FormValue req ''state''"
    "param (readParams req) ''scope'' = FormValue req ''scope''"
    by (simp_all add: readParams_Some param_readParams vars_def)
  show ?thesis
    using assms
    by (auto simp add: CreateGrant_def do_IsUserAuthenticated_def authCodeGrant1_def
        do_ClientInfo_def Let_def addr_is_nil_def redirectTarget_def ps error_redirect_location)
qed

text \<open>
  C8, evaluated. The request without \<^verbatim>\<open>state\<close> and the request without \<^verbatim>\<open>scope\<close> are both
  answered by a 302 redirect whose \<^verbatim>\<open>Location\<close> is the registered URL and nothing more: the
  query string carries no \<^verbatim>\<open>error\<close> and no \<^verbatim>\<open>error_description\<close>. (By the lemma above this
  is so for every \<^verbatim>\<open>EncodeErrInURI\<close>: the map it fills is not written back to the URL.)
\<close>

theorem missing_state_location:
  "fst (CreateGrant test_env (test_config True) req_no_state world0)
     = Redirect ''https://example.com/cb'' StatusFound \<and>
   fst (CreateGrant test_env (test_config True) req_no_scope world0)
     = Redirect ''https://example.com/cb'' StatusFound"
  by code_simp

lemma redirect_uri_key_always_set: "readParams req ''redirect_uri'' \<noteq> None"
  by (simp add: readParams_Some vars_def)

text \<open>
  C7, evaluated. \<^verbatim>\<open>CreateGrant\<close> stores every parameter in the map, the absent ones as
  the empty string, so the request without \<^verbatim>\<open>redirect_uri\<close> has the key with the empty
  value; the empty string parses to a URL without scheme and the form is rendered with
  \<^verbatim>\<open>ErrRedirectURLInvalid\<close>. Called with a map that lacks the key, \<^verbatim>\<open>authCodeGrant1\<close> does
  fall back to the registered URL and returns the validated data.
\<close>

theorem omitted_redirect_uri_rejected:
  "FormValue req_no_redirect_uri ''redirect_uri'' = [] \<and>
   readParams req_no_redirect_uri ''redirect_uri'' = Some [] \<and>
   fst (CreateGrant test_env (test_config True) req_no_redirect_uri world0)
     = renderErrors (test_config True) [ErrRedirectURLInvalid] \<and>
   fst (authCodeGrant1 test_env (test_config True) params_without_redirect_uri world0)
     = Inr \<lparr>Client = test_client, Scopes = [\<lparr>Scope_ID = ''read'', Scope_Desc = []\<rparr>],
            Errors = [], GrantType = ''code'', State = ''st''\<rparr>"
  by code_simp

section \<open>The client that is not found\<close>

lemma client_not_found_never_rendered:
  "fst (authCodeGrant1 e cfg params w) = Inl (HTML opts) \<Longrightarrow>
     ErrClientIDNotFound \<notin> set (Errors (Data opts))"
  by (auto simp add: authCodeGrant1_def do_ClientInfo_def do_ScopesInfo_def Let_def
      redirectError_def renderErrors_def errorData_def addr_is_nil_def
      split: prod.splits option.splits sum.splits if_splits)

text \<open>
  C9, evaluated. For a \<^verbatim>\<open>client_id\<close> that the Provider does not know, reported by an
  error of the lookup, the form is rendered with the server error that wraps it, as for
  any other failure of the lookup. When the Provider reports it by a zero \<^verbatim>\<open>Client\<close> and
  no error, validation goes on with that client and ends in the dereference of its nil
  redirect URL. (By the lemma above no page of the parser carries \<^verbatim>\<open>ErrClientIDNotFound\<close>.)
\<close>

theorem unknown_client_rendered_as_server_error:
  "ClientInfo (provider (test_config True)) (store world0)
      (FormValue req_unknown_client ''client_id'') = (zeroClient, Some (Error ''client not found'')) \<and>
   fst (CreateGrant test_env (test_config True) req_unknown_client world0)
     = renderErrors (test_config True) [ErrServerError [] (Error ''client not found'')] \<and>
   ClientInfo (provider silent_config) (store world0)
      (FormValue req_unknown_client ''client_id'') = (zeroClient, None) \<and>
   fst (CreateGrant test_env silent_config req_unknown_client world0) = NilPointerPanic"
  by code_simp

section \<open>The implicit flow\<close>

lemma fragment_written_after_hash:
  "url_String (u\<lparr>Fragment := ''#'' @ x\<rparr>)
     = url_String (u\<lparr>Fragment := []\<rparr>) @ ''#%23'' @ escape x encodeFragment"
proof -
  have "escape_byte (CHR ''#'') encodeFragment = ''%23''"
    by code_simp
  then show ?thesis
    by (simp add: url_String_def escape_def)
qed

text \<open>
  C5, evaluated. The consent submission of the implicit flow is answered by a 302 redirect
  whose \<^verbatim>\<open>Location\<close> has, after the \<^verbatim>\<open>#\<close> that starts the fragment, the escaped \<^verbatim>\<open>#\<close> that
  the handler puts in front of the pairs, and the pairs in the order of their keys.
\<close>

theorem implicit_location:
  "fst (CreateGrant test_env (test_config True) req_implicit world0)
     = Redirect
         ''https://example.com/cb#%23access_token=access-token&expires_in=600&scope=read+write+identity&state=st&token_type=bearer''
         StatusFound"
  by code_simp

lemma of_char_div_16: "(of_char c :: nat) div 16 < 16"
proof -
  have "(of_char c :: nat) < 256" by (cases c) simp
  then show ?thesis by (simp add: less_mult_imp_div_less)
qed

lemma upperhex_digit: "n < 16 \<Longrightarrow> upperhex n \<in> set ''0123456789ABCDEF''"
  unfolding upperhex_def by (rule nth_mem) simp

lemma upperhex_no_separator:
  assumes "n < 16" shows "upperhex n \<noteq> CHR ''&''" and "upperhex n \<noteq> CHR ''=''"
  using upperhex_digit[OF assms] by auto

lemma escape_byte_no_separator:
  assumes "c \<in> set (escape_byte x encodeQueryComponent)"
  shows "c \<noteq> CHR ''&'' \<and> c \<noteq> CHR ''=''"
proof (cases "x = CHR '' ''")
  case True
  with assms show ?thesis by (simp add: escape_byte_def)
next
  case False
  show ?thesis
  proof (cases "shouldEscape x encodeQueryComponent")
    case True
    have "(of_char x :: nat) mod 16 < 16" by simp
    with assms True False of_char_div_16[of x] show ?thesis
      by (auto simp add: escape_byte_def upperhex_no_separator)
  next
    case no: False
    have "shouldEscape (CHR ''&'') encodeQueryComponent" "shouldEscape (CHR ''='') encodeQueryComponent"
      by code_simp+
    with assms no False show ?thesis
      by (auto simp add: escape_byte_def)
  qed
qed

lemma QueryEscape_no_separator:
  "CHR ''&'' \<notin> set (QueryEscape s)" "CHR ''='' \<notin> set (QueryEscape s)"
  using escape_byte_no_separator by (auto simp add: QueryEscape_def escape_def)

lemma fields_single: "sep \<notin> set a \<Longrightarrow> fields sep a = [a]"
  by (induction a) auto

lemma fields_piece: "sep \<notin> set a \<Longrightarrow> fields sep (a @ sep # r) = a # fields sep r"
  by (induction a) auto

lemma name_of_pair:
  "CHR ''='' \<notin> set k \<Longrightarrow> takeWhile (\<lambda>c. c \<noteq> CHR ''='') (k @ CHR ''='' # v) = k"
  by (induction k) auto

lemma join_Cons: "ys \<noteq> [] \<Longrightarrow> join sep (x # ys) = x @ sep @ join sep ys"
  by (cases ys) simp_all

lemma param_names_join:
  assumes "\<forall>kv \<in> set kvs. CHR ''&'' \<notin> set (fst kv) \<and> CHR ''='' \<notin> set (fst kv)
             \<and> CHR ''&'' \<notin> set (snd kv)"
    and "kvs \<noteq> []"
  shows "param_names (join ''&'' (map (\<lambda>(k, v). k @ CHR ''='' # v) kvs)) = map fst kvs"
  using assms
proof (induction kvs)
  case Nil
  then show ?case by simp
next
  case (Cons kv kvs)
  obtain k v where kv: "kv = (k, v)" by (cases kv)
  with Cons.prems have a: "CHR ''&'' \<notin> set (k @ CHR ''='' # v)" and b: "CHR ''='' \<notin> set k"
    by auto
  show ?case
  proof (cases "kvs = []")
    case True
    then show ?thesis
      using fields_single[OF a] name_of_pair[OF b] by (simp add: param_names_def kv)
  next
    case False
    have ih: "param_names (join ''&'' (map (\<lambda>(k, v). k @ CHR ''='' # v) kvs)) = map fst kvs"
      using Cons.IH Cons.prems(1) False by simp
    have "join ''&'' (map (\<lambda>(k, v). k @ CHR ''='' # v) (kv # kvs))
        = (k @ CHR ''='' # v) @ CHR ''&'' # join ''&'' (map (\<lambda>(k, v). k @ CHR ''='' # v) kvs)"
      using False by (simp add: kv join_Cons)
    then have "param_names (join ''&'' (map (\<lambda>(k, v). k @ CHR ''='' # v) (kv # kvs)))
        = takeWhile (\<lambda>c. c \<noteq> CHR ''='') (k @ CHR ''='' # v)
          # param_names (join ''&'' (map (\<lambda>(k, v). k @ CHR ''='' # v) kvs))"
      by (simp only: param_names_def fields_piece[OF a] list.map)
    then show ?thesis using ih by (simp add: name_of_pair[OF b] kv)
  qed
qed

lemma implicitQuery_pairs:
  "implicitQuery e token d =
     [(''access_token'', [Token_Value token]), (''token_type'', [Token_Type token]),
      (''expires_in'', [FormatSeconds e (Token_ExpiresIn token)]),
      (''scope'', [StringifyScopes e (Token_Scope token)]), (''state'', [State d])]"
  by (simp add: implicitQuery_def Values_Set_def Let_def)

lemma implicit_keys:
  "Values_keys (implicitQuery e token d)
     = [''access_token'', ''expires_in'', ''scope'', ''state'', ''token_type'']"
proof -
  have "sort (remdups [''access_token'', ''token_type'', ''expires_in'', ''scope'', ''state''])
      = [''access_token'', ''expires_in'', ''scope'', ''state'', ''token_type'']"
    by code_simp
  then show ?thesis by (simp add: Values_keys_def implicitQuery_pairs)
qed

lemma implicit_Encode:
  "Values_Encode (implicitQuery e token d) =
     join ''&'' (map (\<lambda>(k, v). k @ CHR ''='' # v)
       [(''access_token'', QueryEscape (Token_Value token)),
        (''expires_in'', QueryEscape (FormatSeconds e (Token_ExpiresIn token))),
        (''scope'', QueryEscape (StringifyScopes e (Token_Scope token))),
        (''state'', QueryEscape (State d)),
        (''token_type'', QueryEscape (Token_Type token))])"
proof -
  have esc: "QueryEscape ''access_token'' = ''access_token''"
    "QueryEscape ''expires_in'' = ''expires_in''" "QueryEscape ''scope'' = ''scope''"
    "QueryEscape ''state'' = ''state''" "QueryEscape ''token_type'' = ''token_type''"
    by code_simp+
  show ?thesis
    unfolding Values_Encode_def implicit_keys
    by (simp add: implicitQuery_pairs Values_lookup_def esc)
qed

lemma implicit_param_names:
  "param_names (Values_Encode (implicitQuery e token d))
     = [''access_token'', ''expires_in'', ''scope'', ''state'', ''token_type'']"
  unfolding implicit_Encode
  by (subst param_names_join) (auto simp add: QueryEscape_no_separator)

lemma validated_client_has_redirect_url:
  "fst (authCodeGrant1 e cfg params w) = Inr d \<Longrightarrow> \<exists>reg. RedirectURL (Client d) = Some reg"
  by (auto simp add: authCodeGrant1_def do_ClientInfo_def do_ScopesInfo_def Let_def
      split: prod.splits option.splits sum.splits if_splits)

lemma CreateGrant_implicit:
  "IsUserAuthenticated (provider cfg) (store w) \<Longrightarrow> Method req \<noteq> ''GET'' \<Longrightarrow>
   FormValue req ''response_type'' = ''token'' \<Longrightarrow>
   authCodeGrant1 e cfg (readParams req) (logged Call_IsUserAuthenticated w) = (Inr d, w') \<Longrightarrow>
   CreateGrant e cfg req w = implicitGrant e cfg d w'"
  by (simp add: CreateGrant_def do_IsUserAuthenticated_def param_readParams vars_def)

text \<open>
  C6. The implicit flow is \<^verbatim>\<open>implicitGrant\<close>, which \<^verbatim>\<open>CreateGrant\<close> runs on the validated
  data of a consent submission with \<^verbatim>\<open>response_type=token\<close>; the client of validated data
  has a registered URL (the two lemmas above).
  A response of \<^verbatim>\<open>implicitGrant\<close> for a client with a registered URL is a 302 redirect
  either to that URL unchanged (the token could not be generated) or to that URL with the
  fragment \<^verbatim>\<open>"#" + query.Encode()\<close>, where the parameters of the encoded query are named
  \<^verbatim>\<open>access_token\<close>, \<^verbatim>\<open>expires_in\<close>, \<^verbatim>\<open>scope\<close>, \<^verbatim>\<open>state\<close> and \<^verbatim>\<open>token_type\<close>, one of each:
  there is no parameter \<^verbatim>\<open>refresh_token\<close>.
\<close>

theorem implicit_fragment_parameters:
  assumes "RedirectURL (Client authzData) = Some u"
  shows "fst (implicitGrant e cfg authzData w) = Redirect (url_String u) StatusFound \<or>
     (\<exists>token. fst (implicitGrant e cfg authzData w)
          = Redirect (url_String
              (u\<lparr>Fragment := ''#'' @ Values_Encode (implicitQuery e token authzData)\<rparr>)) StatusFound
        \<and> param_names (Values_Encode (implicitQuery e token authzData))
          = [''access_token'', ''expires_in'', ''scope'', ''state'', ''token_type'']
        \<and> ''refresh_token'' \<notin> set (param_names (Values_Encode (implicitQuery e token authzData))))"
proof -
  obtain token err s' where g:
    "GenToken (provider cfg) (store w) AccessToken (Scopes authzData) (Client authzData)
       = ((token, err), s')"
    by (metis prod.collapse)
  show ?thesis
  proof (cases err)
    case (Some er)
    then show ?thesis using assms g
      by (simp add: implicitGrant_def do_GenToken_def error_redirect_location)
  next
    case None
    have "fst (implicitGrant e cfg authzData w)
        = Redirect (url_String
            (u\<lparr>Fragment := ''#'' @ Values_Encode (implicitQuery e token authzData)\<rparr>)) StatusFound"
      using assms g None by (simp add: implicitGrant_def do_GenToken_def Let_def)
    then show ?thesis by (auto simp add: implicit_param_names)
  qed
qed

theorem implicit_fragment_parameters_witness:
  "\<exists>token. fst (implicitGrant test_env (test_config True) test_authzData world0)
       = Redirect (url_String (registeredURL
           \<lparr>Fragment := ''#'' @ Values_Encode (implicitQuery test_env token test_authzData)\<rparr>))
           StatusFound
     \<and> param_names (Values_Encode (implicitQuery test_env token test_authzData))
       = [''access_token'', ''expires_in'', ''scope'', ''state'', ''token_type'']"
proof -
  have h: "RedirectURL (Client test_authzData) = Some registeredURL"
    by code_simp
  have "fst (implicitGrant test_env (test_config True) test_authzData world0)
      = Redirect ''https://example.com/cb#%23access_token=access-token&expires_in=600&scope=read&state=st&token_type=bearer'' StatusFound"
    by code_simp
  moreover have "url_String registeredURL = ''https://example.com/cb''"
    by code_simp
  ultimately have "fst (implicitGrant test_env (test_config True) test_authzData world0)
      \<noteq> Redirect (url_String registeredURL) StatusFound"
    by simp
  with implicit_fragment_parameters [OF h, of test_env "test_config True" world0]
  show ?thesis by blast
qed

end
